theory Spec2Isabelle
  imports Complex_Main
begin

section \<open>Solace: the session logic of \<^verbatim>\<open>mental_health_companion.py\<close>\<close>

text \<open>
  The class \<^verbatim>\<open>SolaceApp\<close> is embedded as a record of the fields its methods read and
  write, each method as a function from the record to the updated record and the list of
  effects the method performs, in program order. Widgets that are only written
  (\<^verbatim>\<open>chat_display\<close>, \<^verbatim>\<open>breath_canvas\<close>, \<^verbatim>\<open>breath_btn\<close>, the message boxes) appear as
  effects; widgets that are read back (\<^verbatim>\<open>input_box\<close>, \<^verbatim>\<open>key_entry\<close>, \<^verbatim>\<open>provider_var\<close>) and
  the status label are fields. Colours, fonts and layout are left out.
\<close>

subsection \<open>Python strings\<close>

text \<open>
  A Python \<^verbatim>\<open>str\<close> is a sequence of Unicode code points; several literals of the source
  hold code points beyond ASCII (the ellipsis U+2026 of the placeholder, the bullet
  U+25CF of the status label), so a string is a list of code points.
\<close>

type_synonym pystr = "nat list"

definition ascii :: "string \<Rightarrow> pystr" where
  "ascii s = map of_char s"

text \<open>The code points \<^verbatim>\<open>str.strip()\<close> removes: those for which \<^verbatim>\<open>str.isspace\<close> holds.\<close>

definition py_isspace :: "nat \<Rightarrow> bool" where
  "py_isspace c \<longleftrightarrow>
     (9 \<le> c \<and> c \<le> 13) \<or> (28 \<le> c \<and> c \<le> 32) \<or> c = 133 \<or> c = 160 \<or> c = 5760 \<or>
     (8192 \<le> c \<and> c \<le> 8202) \<or> c = 8232 \<or> c = 8233 \<or> c = 8239 \<or> c = 8287 \<or> c = 12288"

definition strip :: "pystr \<Rightarrow> pystr" where
  "strip s = rev (dropWhile py_isspace (rev (dropWhile py_isspace s)))"

text \<open>\<^verbatim>\<open>s.replace(c, r)\<close> for a pattern \<^verbatim>\<open>c\<close> of one code point.\<close>

definition replace_char :: "nat \<Rightarrow> pystr \<Rightarrow> pystr \<Rightarrow> pystr" where
  "replace_char c r s = concat (map (\<lambda>x. if x = c then r else [x]) s)"

text \<open>\<^verbatim>\<open>str(n)\<close> of a non-negative integer.\<close>

fun str_nat :: "nat \<Rightarrow> pystr" where
  "str_nat n = (if n < 10 then [48 + n] else str_nat (n div 10) @ [48 + n mod 10])"

declare str_nat.simps [simp del]

definition ELLIPSIS :: nat where
  "ELLIPSIS = 8230"

definition PLACEHOLDER :: pystr where
  "PLACEHOLDER = ascii ''Share what's on your mind'' @ [ELLIPSIS]"

definition BULLET :: pystr where
  "BULLET = [9679, 32]"

subsection \<open>Configuration\<close>

definition SYSTEM_PROMPT :: pystr where
  "SYSTEM_PROMPT =
     ascii ''You are Solace, a warm and empathetic mental health companion. Your role is to:'' @ [10] @
     ascii ''- Listen deeply and reflect back what you hear with genuine compassion'' @ [10] @
     ascii ''- Validate emotions without judgment'' @ [10] @
     ascii ''- Ask thoughtful, open-ended questions to help the user explore their feelings'' @ [10] @
     ascii ''- Offer gentle, evidence-based coping strategies when appropriate (breathing exercises, grounding techniques, journaling prompts)'' @ [10] @
     ascii ''- Recognize when someone may need professional help and gently encourage it'' @ [10] @
     ascii ''- Never diagnose or prescribe'' @ [10] @
     ascii ''- Keep responses concise (2-4 sentences usually), warm, and conversational'' @ [10] @
     ascii ''- Use simple, accessible language'' @ [10] @
     ascii ''- If someone expresses suicidal ideation or self-harm, ALWAYS provide crisis resources: 988 Suicide & Crisis Lifeline (call/text 988 in the US)'' @ [10] @
     [10] @
     ascii ''Always respond with warmth, patience, and genuine care.''"

definition BOX_BREATHING_STEPS :: "(pystr \<times> nat) list" where
  "BOX_BREATHING_STEPS =
     [(ascii ''Inhale'' @ [ELLIPSIS], 4),
      (ascii ''Hold'' @ [ELLIPSIS], 4),
      (ascii ''Exhale'' @ [ELLIPSIS], 6),
      (ascii ''Hold'' @ [ELLIPSIS], 4)]"

subsection \<open>Data\<close>

datatype provider = OpenAI | OpenRouter

definition provider_name :: "provider \<Rightarrow> pystr" where
  "provider_name p = (case p of OpenAI \<Rightarrow> ascii ''OpenAI'' | OpenRouter \<Rightarrow> ascii ''OpenRouter'')"

datatype role = System | User | Assistant

text \<open>An entry of \<^verbatim>\<open>conversation_history\<close>: the dict \<^verbatim>\<open>{"role": r, "content": c}\<close>.\<close>

record message =
  role :: role
  content :: pystr

record app =
  openai_api_key :: pystr
  openrouter_api_key :: pystr
  api_provider :: provider
  api_key :: pystr
  client :: bool
  conversation_history :: "message list"
  breathing :: bool
  provider_var :: provider
  key_entry :: pystr
  status_label :: pystr
  input_box :: pystr

text \<open>
  The state \<^verbatim>\<open>__init__\<close> builds before it tries to connect, from the two environment
  variables. \<^verbatim>\<open>client = None\<close> is \<open>False\<close>; the only other value the source assigns is
  \<^verbatim>\<open>True\<close>.
\<close>

definition initial :: "pystr \<Rightarrow> pystr \<Rightarrow> app" where
  "initial env_openai env_openrouter =
     \<lparr>openai_api_key = env_openai, openrouter_api_key = env_openrouter,
      api_provider = OpenRouter, api_key = env_openrouter, client = False,
      conversation_history = [], breathing = False, provider_var = OpenRouter,
      key_entry = env_openrouter, status_label = BULLET @ ascii ''Not connected'',
      input_box = PLACEHOLDER\<rparr>"

subsection \<open>The provider's HTTP surface\<close>

datatype http_method = GET | POST

record payload =
  model :: pystr
  messages :: "message list"
  max_tokens :: nat
  temperature :: rat

record http_request =
  http_method :: http_method
  url :: pystr
  authorization :: pystr
  content_type :: "pystr option"
  json :: "payload option"

text \<open>
  What \<^verbatim>\<open>response.json()\<close> returns: a Python value built from JSON. A dict is the list of
  its items, looked up with \<open>map_of\<close>.
\<close>

datatype pyval =
    PNone
  | PBool bool
  | PInt int
  | PFloat rat
  | PStr pystr
  | PList "pyval list"
  | PDict "(pystr \<times> pyval) list"

datatype body = NotJson pystr | Json pyval

text \<open>
  The outcome of \<^verbatim>\<open>requests.get\<close> or \<^verbatim>\<open>requests.post\<close>: the library raises (connection
  refused, DNS failure, ...) with some message, or returns a response with a status code
  and a body. \<open>NotJson msg\<close> is a body on which \<^verbatim>\<open>response.json()\<close> raises with message
  \<open>msg\<close>. The network is a parameter of every function that makes a request.
\<close>

datatype http_result = ConnectionFailed pystr | Response nat body

type_synonym network = "http_request \<Rightarrow> http_result"

text \<open>Exceptions, each with the text \<^verbatim>\<open>str(e)\<close> gives (wording of CPython 3.12).\<close>

datatype py_exception =
    Exception pystr
  | RequestException pystr
  | JSONDecodeError pystr
  | KeyError pystr
  | IndexError pystr
  | TypeError pystr
  | AttributeError pystr

definition exc_str :: "py_exception \<Rightarrow> pystr" where
  "exc_str e = (case e of Exception m \<Rightarrow> m | RequestException m \<Rightarrow> m | JSONDecodeError m \<Rightarrow> m
     | KeyError m \<Rightarrow> m | IndexError m \<Rightarrow> m | TypeError m \<Rightarrow> m | AttributeError m \<Rightarrow> m)"

definition type_name :: "pyval \<Rightarrow> pystr" where
  "type_name v = (case v of PNone \<Rightarrow> ascii ''NoneType'' | PBool _ \<Rightarrow> ascii ''bool''
     | PInt _ \<Rightarrow> ascii ''int'' | PFloat _ \<Rightarrow> ascii ''float'' | PStr _ \<Rightarrow> ascii ''str''
     | PList _ \<Rightarrow> ascii ''list'' | PDict _ \<Rightarrow> ascii ''dict'')"

text \<open>\<^verbatim>\<open>v[key]\<close> for one of the ASCII keys the source uses.\<close>

definition getitem_str :: "pyval \<Rightarrow> string \<Rightarrow> py_exception + pyval" where
  "getitem_str v key =
     (case v of
        PDict items \<Rightarrow>
          (case map_of items (ascii key) of
             Some x \<Rightarrow> Inr x
           | None \<Rightarrow> Inl (KeyError ([39] @ ascii key @ [39])))
      | PList _ \<Rightarrow> Inl (TypeError (ascii ''list indices must be integers or slices, not str''))
      | PStr _ \<Rightarrow> Inl (TypeError (ascii ''string indices must be integers, not 'str'' @ [39]))
      | _ \<Rightarrow> Inl (TypeError ([39] @ type_name v @ [39] @ ascii '' object is not subscriptable'')))"

text \<open>\<^verbatim>\<open>v[0]\<close>. The keys of a dict built from JSON are strings, so \<^verbatim>\<open>0\<close> is never one.\<close>

definition getitem_0 :: "pyval \<Rightarrow> py_exception + pyval" where
  "getitem_0 v =
     (case v of
        PList [] \<Rightarrow> Inl (IndexError (ascii ''list index out of range''))
      | PList (x # _) \<Rightarrow> Inr x
      | PStr [] \<Rightarrow> Inl (IndexError (ascii ''string index out of range''))
      | PStr (c # _) \<Rightarrow> Inr (PStr [c])
      | PDict _ \<Rightarrow> Inl (KeyError (ascii ''0''))
      | _ \<Rightarrow> Inl (TypeError ([39] @ type_name v @ [39] @ ascii '' object is not subscriptable'')))"

text \<open>\<^verbatim>\<open>v.strip()\<close>: only a \<^verbatim>\<open>str\<close> has the method.\<close>

definition call_strip :: "pyval \<Rightarrow> py_exception + pystr" where
  "call_strip v =
     (case v of
        PStr s \<Rightarrow> Inr (strip s)
      | _ \<Rightarrow> Inl (AttributeError ([39] @ type_name v @ [39] @ ascii '' object has no attribute 'strip'' @ [39])))"

definition and_then :: "'e + 'a \<Rightarrow> ('a \<Rightarrow> 'e + 'b) \<Rightarrow> 'e + 'b" where
  "and_then r f = (case r of Inl e \<Rightarrow> Inl e | Inr x \<Rightarrow> f x)"

subsection \<open>Effects\<close>

text \<open>
  The calls on widgets the methods make, by the method or widget operation of the source:
  \<^verbatim>\<open>_show_thinking\<close>, \<^verbatim>\<open>_hide_thinking\<close>, \<^verbatim>\<open>_start_bot_message(name)\<close>,
  \<^verbatim>\<open>_append_chunk(chunk)\<close>, \<^verbatim>\<open>_finish_bot_message\<close>, \<^verbatim>\<open>_append_message(role, name, text)\<close>,
  \<^verbatim>\<open>_draw_breath_circle(label, scale)\<close>, \<^verbatim>\<open>breath_btn.configure(text=...)\<close>,
  \<^verbatim>\<open>messagebox.showerror(title, message)\<close> and \<^verbatim>\<open>messagebox.showwarning(title, message)\<close>.
  None of them touches \<^verbatim>\<open>conversation_history\<close>, \<^verbatim>\<open>client\<close> or \<^verbatim>\<open>breathing\<close>.
  A scale is a Python float; the model holds the exact rational value of the expression
  that computes it.
\<close>

datatype ui_call =
    ShowThinking
  | HideThinking
  | StartBotMessage pystr
  | AppendChunk pystr
  | FinishBotMessage
  | AppendMessage pystr pystr pystr
  | DrawBreathCircle pystr rat
  | BreathBtnConfigure pystr
  | Showerror pystr pystr
  | Showwarning pystr pystr

text \<open>
  The \<^verbatim>\<open>messages\<close> argument of \<^verbatim>\<open>_stream_response\<close>: \<^verbatim>\<open>_send_message\<close> passes the list
  object \<^verbatim>\<open>self.conversation_history\<close> itself (no copy), \<^verbatim>\<open>_send_greeting\<close> a fresh
  list.
\<close>

datatype msgs_arg = History | Literal "message list"

datatype worker = StreamResponse msgs_arg | RunBreathing

text \<open>
  What a method does, in program order, on the thread that runs it:
  \<^item> \<open>Call c\<close>: the widget call \<open>c\<close>, made directly;
  \<^item> \<open>Post c\<close>: \<^verbatim>\<open>self.root.after(0, ...)\<close>, which queues \<open>c\<close> for the UI thread;
  \<^item> \<open>HistoryAppend m\<close>: \<^verbatim>\<open>self.conversation_history.append(m)\<close>, made directly;
  \<^item> \<open>Spawn w\<close>: \<^verbatim>\<open>threading.Thread(target=w, daemon=True).start()\<close>;
  \<^item> \<open>Request r\<close>: \<^verbatim>\<open>requests.get\<close> or \<^verbatim>\<open>requests.post\<close>;
  \<^item> \<open>Print s\<close>: \<^verbatim>\<open>print(s)\<close>;
  \<^item> \<open>Sleep t\<close>: \<^verbatim>\<open>time.sleep(t)\<close>;
  \<^item> \<open>SetBreathing b\<close>: \<^verbatim>\<open>self.breathing = b\<close>, made directly.
\<close>

datatype action =
    Call ui_call
  | Post ui_call
  | HistoryAppend message
  | Spawn worker
  | Request http_request
  | Print pystr
  | Sleep rat
  | SetBreathing bool

text \<open>
  The thread on which the effect of an action takes place, given the thread that runs the
  method: a posted callback runs on the UI thread, everything else where it is written.
\<close>

datatype thread = UI_thread | Worker_thread

definition executed_on :: "thread \<Rightarrow> action \<Rightarrow> thread" where
  "executed_on running a = (case a of Post _ \<Rightarrow> UI_thread | _ \<Rightarrow> running)"

definition mutates_history :: "action \<Rightarrow> bool" where
  "mutates_history a = (case a of HistoryAppend _ \<Rightarrow> True | _ \<Rightarrow> False)"

definition is_spawn :: "action \<Rightarrow> bool" where
  "is_spawn a = (case a of Spawn _ \<Rightarrow> True | _ \<Rightarrow> False)"

definition is_request :: "action \<Rightarrow> bool" where
  "is_request a = (case a of Request _ \<Rightarrow> True | _ \<Rightarrow> False)"

definition renders_message :: "action \<Rightarrow> bool" where
  "renders_message a =
     (case a of
        Post (AppendMessage _ _ _) \<Rightarrow> True
      | Call (AppendMessage _ _ _) \<Rightarrow> True
      | Post (AppendChunk _) \<Rightarrow> True
      | _ \<Rightarrow> False)"

definition is_breath_frame :: "action \<Rightarrow> bool" where
  "is_breath_frame a = (case a of Post (DrawBreathCircle _ _) \<Rightarrow> True | _ \<Rightarrow> False)"

subsection \<open>Connecting\<close>

definition MODELS_URL :: pystr where
  "MODELS_URL = ascii ''https://openrouter.ai/api/v1/models''"

definition HARDCODED_KEY :: pystr where
  "HARDCODED_KEY = ascii ''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''"

text \<open>The \<^verbatim>\<open>except\<close> branch of \<^verbatim>\<open>_connect_client\<close>.\<close>

definition connect_failed :: "app \<Rightarrow> action list \<Rightarrow> py_exception \<Rightarrow> app \<times> action list" where
  "connect_failed s done e =
     (s\<lparr>status_label := BULLET @ ascii ''Error''\<rparr>,
      done @ [Call (Showerror (ascii ''Connection Error'') (exc_str e))])"

definition connect_client :: "network \<Rightarrow> app \<Rightarrow> app \<times> action list" where
  "connect_client net s =
     (if api_provider s = OpenAI then
        (let req = \<lparr>http_method = GET, url = MODELS_URL,
                    authorization = ascii ''Bearer '' @ HARDCODED_KEY,
                    content_type = None, json = None\<rparr>
         in case net req of
              ConnectionFailed msg \<Rightarrow> connect_failed s [Request req] (RequestException msg)
            | Response status_code _ \<Rightarrow>
                (let done = [Request req, Print (ascii ''Status:'' @ str_nat status_code)]
                 in if status_code = 200
                    then (s\<lparr>client := True, status_label := BULLET @ ascii ''Connected''\<rparr>, done)
                    else connect_failed s done (Exception (ascii ''Invalid API key''))))
      else
        (let req = \<lparr>http_method = GET, url = MODELS_URL,
                    authorization = ascii ''Bearer '' @ api_key s,
                    content_type = None, json = None\<rparr>
         in case net req of
              ConnectionFailed msg \<Rightarrow> connect_failed s [Request req] (RequestException msg)
            | Response status_code _ \<Rightarrow>
                (if status_code = 200
                 then (s\<lparr>client := True, status_label := BULLET @ ascii ''Connected''\<rparr>,
                       [Request req])
                 else connect_failed s [Request req] (Exception (ascii ''Invalid API key'')))))"

definition send_greeting :: "action list" where
  "send_greeting = [Spawn (StreamResponse (Literal [\<lparr>role = User, content = ascii ''Hello''\<rparr>]))]"

definition on_connect :: "network \<Rightarrow> app \<Rightarrow> app \<times> action list" where
  "on_connect net s =
     (let key = strip (key_entry s)
      in if key = [] then
           (s, [Call (Showerror (ascii ''Missing Key'')
                  (ascii ''Please enter your '' @ provider_name (provider_var s) @ ascii '' API key.''))])
         else
           (let s1 = s\<lparr>api_key := key\<rparr>;
                s2 = (if api_provider s1 = OpenAI then s1\<lparr>openai_api_key := key\<rparr>
                      else s1\<lparr>openrouter_api_key := key\<rparr>);
                (s3, acts) = connect_client net s2
            in if client s3 \<and> conversation_history s3 = [] then (s3, acts @ send_greeting)
               else (s3, acts)))"

text \<open>
  \<^verbatim>\<open>_on_provider_change\<close> with \<^verbatim>\<open>_update_key_entry\<close>, run when the option menu sets
  \<^verbatim>\<open>provider_var\<close> to \<open>p\<close>.
\<close>

definition on_provider_change :: "provider \<Rightarrow> app \<Rightarrow> app" where
  "on_provider_change p s =
     (let s1 = s\<lparr>provider_var := p, api_provider := p, key_entry := []\<rparr>;
          s2 = (if api_provider s1 = OpenAI then s1\<lparr>api_key := openai_api_key s1\<rparr>
                else s1\<lparr>api_key := openrouter_api_key s1\<rparr>)
      in if api_key s2 \<noteq> [] then s2\<lparr>key_entry := api_key s2\<rparr> else s2)"

subsection \<open>Messaging\<close>

definition send_message :: "app \<Rightarrow> app \<times> action list" where
  "send_message s =
     (if \<not> client s then
        (s, [Call (Showwarning (ascii ''Not Connected'')
               (ascii ''Please enter your '' @ provider_name (provider_var s) @
                ascii '' API key and click Connect.''))])
      else
        (let text = strip (input_box s)
         in if text = [] \<or> text = PLACEHOLDER then (s, [])
            else
              (s\<lparr>input_box := [],
                 conversation_history :=
                   conversation_history s @ [\<lparr>role = User, content = text\<rparr>]\<rparr>,
               [Call (AppendMessage (ascii ''user'') (ascii ''You'') text),
                HistoryAppend \<lparr>role = User, content = text\<rparr>,
                Spawn (StreamResponse History)])))"

definition send_quick :: "pystr \<Rightarrow> app \<Rightarrow> app \<times> action list" where
  "send_quick prompt s = send_message (s\<lparr>input_box := prompt\<rparr>)"

text \<open>
  The request \<^verbatim>\<open>_stream_response\<close> builds. The loop copies every message of the argument
  behind the system prompt.
\<close>

definition chat_request :: "app \<Rightarrow> message list \<Rightarrow> http_request" where
  "chat_request s msgs =
     (if api_provider s = OpenAI then
        \<lparr>http_method = POST, url = ascii ''https://api.openai.com/v1/chat/completions'',
         authorization = ascii ''Bearer '' @ api_key s,
         content_type = Some (ascii ''application/json''),
         json = Some \<lparr>model = ascii ''gpt-3.5-turbo'',
                      messages = \<lparr>role = System, content = SYSTEM_PROMPT\<rparr> #
                                 map (\<lambda>msg. \<lparr>role = role msg, content = content msg\<rparr>) msgs,
                      max_tokens = 150, temperature = 7 / 10\<rparr>\<rparr>
      else
        \<lparr>http_method = POST, url = ascii ''https://openrouter.ai/api/v1/chat/completions'',
         authorization = ascii ''Bearer '' @ api_key s,
         content_type = Some (ascii ''application/json''),
         json = Some \<lparr>model = ascii ''anthropic/claude-3-haiku'',
                      messages = \<lparr>role = System, content = SYSTEM_PROMPT\<rparr> #
                                 map (\<lambda>msg. \<lparr>role = role msg, content = content msg\<rparr>) msgs,
                      max_tokens = 150, temperature = 7 / 10\<rparr>\<rparr>)"

text \<open>
  From the outcome of the POST to \<^verbatim>\<open>full_text\<close>, or to the exception the \<^verbatim>\<open>try\<close> block
  catches: \<^verbatim>\<open>result["choices"][0]["message"]["content"].strip()\<close> on status 200,
  \<^verbatim>\<open>Exception(f"API Error: {status}")\<close> otherwise. Both branches of the source read the
  response the same way.
\<close>

definition reply_text :: "http_result \<Rightarrow> py_exception + pystr" where
  "reply_text r =
     (case r of
        ConnectionFailed msg \<Rightarrow> Inl (RequestException msg)
      | Response status_code b \<Rightarrow>
          (if status_code = 200 then
             (case b of
                NotJson msg \<Rightarrow> Inl (JSONDecodeError msg)
              | Json result \<Rightarrow>
                  and_then (getitem_str result ''choices'') (\<lambda>choices.
                  and_then (getitem_0 choices) (\<lambda>choice.
                  and_then (getitem_str choice ''message'') (\<lambda>msg.
                  and_then (getitem_str msg ''content'') call_strip))))
           else Inl (Exception (ascii ''API Error: '' @ str_nat status_code))))"

text \<open>
  \<^verbatim>\<open>_stream_response\<close>, run by a worker thread on the state \<open>s\<close> it finds. The result is
  the state after the worker's own writes and the worker's actions in program order.
  \<open>messages_of\<close> is the list the parameter \<^verbatim>\<open>messages\<close> is bound to.
\<close>

definition messages_of :: "msgs_arg \<Rightarrow> app \<Rightarrow> message list" where
  "messages_of arg s = (case arg of History \<Rightarrow> conversation_history s | Literal ms \<Rightarrow> ms)"

definition stream_response :: "network \<Rightarrow> msgs_arg \<Rightarrow> app \<Rightarrow> app \<times> action list" where
  "stream_response net arg s =
     (let msgs = messages_of arg s;
          req = chat_request s msgs
      in case reply_text (net req) of
           Inr full_text \<Rightarrow>
             (s\<lparr>conversation_history :=
                  conversation_history s @ [\<lparr>role = Assistant, content = full_text\<rparr>]\<rparr>,
              [Post ShowThinking, Request req,
               Post (StartBotMessage (ascii ''Solace'')),
               Post (AppendChunk full_text),
               HistoryAppend \<lparr>role = Assistant, content = full_text\<rparr>,
               Post FinishBotMessage])
         | Inl e \<Rightarrow>
             (s,
              [Post ShowThinking, Request req,
               Post HideThinking,
               Post (AppendMessage (ascii ''bot'') (ascii ''Solace'')
                       (ascii ''Something went wrong: '' @ exc_str e))]))"

subsection \<open>Box breathing\<close>

text \<open>
  \<^verbatim>\<open>_toggle_breathing\<close>, the command of the one breathing button.
\<close>

definition toggle_breathing :: "app \<Rightarrow> app \<times> action list" where
  "toggle_breathing s =
     (if breathing s then
        (s\<lparr>breathing := False\<rparr>,
         [SetBreathing False,
          Call (BreathBtnConfigure (ascii ''Start Breathing'')),
          Call (DrawBreathCircle (ascii ''Ready'') 1)])
      else
        (s\<lparr>breathing := True\<rparr>,
         [SetBreathing True,
          Call (BreathBtnConfigure (ascii ''Stop'')),
          Spawn RunBreathing]))"

definition steps :: nat where
  "steps = 30"

definition end_scale :: "pystr \<Rightarrow> rat" where
  "end_scale label =
     (if label = ascii ''Inhale'' @ [ELLIPSIS] \<or> label = ascii ''Hold'' @ [ELLIPSIS]
      then 135 / 100 else 1)"

definition tick_scale :: "pystr \<Rightarrow> nat \<Rightarrow> rat" where
  "tick_scale label i = 1 + (end_scale label - 1) * (of_nat i / of_nat steps)"

text \<open>
  The label of a tick. \<^verbatim>\<open>int(i * duration / steps)\<close> truncates a non-negative quotient,
  which is \<open>div\<close>; it is at most \<open>duration\<close> for \<open>i \<le> steps\<close>, so the difference stays
  non-negative.
\<close>

definition tick_label :: "pystr \<Rightarrow> nat \<Rightarrow> nat \<Rightarrow> pystr" where
  "tick_label label duration i =
     replace_char ELLIPSIS
       (ascii '' ('' @ str_nat (duration - (i * duration) div steps) @ ascii ''s)'') label"

text \<open>
  \<^verbatim>\<open>_run_breathing\<close> reads \<^verbatim>\<open>self.breathing\<close> before every cycle, phase and tick, and once
  after the loops, while the UI thread may write it. \<open>flag n\<close> is the value the worker's
  \<open>n\<close>-th read finds (counted from 0); each loop takes the number of reads made so far and
  returns it updated. A \<^verbatim>\<open>break\<close> leaves the innermost loop only.
\<close>

fun ticks :: "(nat \<Rightarrow> bool) \<Rightarrow> pystr \<Rightarrow> nat \<Rightarrow> nat list \<Rightarrow> nat \<Rightarrow> action list \<times> nat" where
  "ticks flag label duration [] n = ([], n)"
| "ticks flag label duration (i # rest) n =
     (if \<not> flag n then ([], Suc n)
      else
        (let (acts, n') = ticks flag label duration rest (Suc n)
         in (Post (DrawBreathCircle (tick_label label duration i) (tick_scale label i)) #
             Sleep (of_nat duration / of_nat steps) # acts, n')))"

fun phases :: "(nat \<Rightarrow> bool) \<Rightarrow> (pystr \<times> nat) list \<Rightarrow> nat \<Rightarrow> action list \<times> nat" where
  "phases flag [] n = ([], n)"
| "phases flag ((label, duration) # rest) n =
     (if \<not> flag n then ([], Suc n)
      else
        (let (a1, n1) = ticks flag label duration [0..<steps + 1] (Suc n);
             (a2, n2) = phases flag rest n1
         in (a1 @ a2, n2)))"

fun cycles :: "(nat \<Rightarrow> bool) \<Rightarrow> nat list \<Rightarrow> nat \<Rightarrow> action list \<times> nat" where
  "cycles flag [] n = ([], n)"
| "cycles flag (cycle # rest) n =
     (if \<not> flag n then ([], Suc n)
      else
        (let (a1, n1) = phases flag BOX_BREATHING_STEPS (Suc n);
             (a2, n2) = cycles flag rest n1
         in (a1 @ a2, n2)))"

definition run_breathing :: "(nat \<Rightarrow> bool) \<Rightarrow> action list" where
  "run_breathing flag =
     (let (acts, n) = cycles flag [0..<4] 0
      in acts @
         (if flag n then
            [SetBreathing False,
             Post (BreathBtnConfigure (ascii ''Start Breathing'')),
             Post (DrawBreathCircle (ascii ''Done '' @ [10003]) 1)]
          else []))"

text \<open>
  The trace of one tick and of one phase that is not interrupted: the frame of tick \<open>i\<close>,
  then the sleep.
\<close>

definition tick_trace :: "pystr \<Rightarrow> nat \<Rightarrow> nat \<Rightarrow> action list" where
  "tick_trace label duration i =
     [Post (DrawBreathCircle (tick_label label duration i)
              (1 + (end_scale label - 1) * (of_nat i / 30))),
      Sleep (of_nat duration / 30)]"

definition phase_trace :: "pystr \<times> nat \<Rightarrow> action list" where
  "phase_trace p = concat (map (tick_trace (fst p) (snd p)) [0..<31])"

subsection \<open>Failed provider calls\<close>

text \<open>
  A body is well formed when it is a dict whose \<^verbatim>\<open>choices\<close> is a non-empty list, whose
  first element is a dict whose \<^verbatim>\<open>message\<close> is a dict whose \<^verbatim>\<open>content\<close> is a string.
\<close>

definition reply_at_path :: "pyval \<Rightarrow> pystr option" where
  "reply_at_path v =
     (case v of
        PDict items \<Rightarrow>
          (case map_of items (ascii ''choices'') of
             Some (PList (PDict choice # _)) \<Rightarrow>
               (case map_of choice (ascii ''message'') of
                  Some (PDict msg) \<Rightarrow>
                    (case map_of msg (ascii ''content'') of
                       Some (PStr t) \<Rightarrow> Some t
                     | _ \<Rightarrow> None)
                | _ \<Rightarrow> None)
           | _ \<Rightarrow> None)
      | _ \<Rightarrow> None)"

text \<open>
  A provider call fails on a network error, on a status other than 200, and on a body
  that is not JSON or not well formed.
\<close>

definition call_failed :: "http_result \<Rightarrow> bool" where
  "call_failed r =
     (case r of
        ConnectionFailed _ \<Rightarrow> True
      | Response status_code b \<Rightarrow>
          status_code \<noteq> 200 \<or>
          (case b of NotJson _ \<Rightarrow> True | Json v \<Rightarrow> reply_at_path v = None))"

subsection \<open>Concrete sessions\<close>

definition user_key :: pystr where
  "user_key = ascii ''sk-user''"

text \<open>The session after a first successful connect with the key \<open>user_key\<close>.\<close>

definition connected :: app where
  "connected =
     (initial [] user_key)\<lparr>client := True, status_label := BULLET @ ascii ''Connected''\<rparr>"

text \<open>The connected session after the user has sent \<^verbatim>\<open>hello\<close>.\<close>

definition after_hello :: app where
  "after_hello = fst (send_message (connected\<lparr>input_box := ascii ''hello''\<rparr>))"

text \<open>The session after the user has chosen OpenAI and typed \<open>user_key\<close> into the key entry.\<close>

definition openai_session :: app where
  "openai_session = (on_provider_change OpenAI (initial [] []))\<lparr>key_entry := user_key\<rparr>"

text \<open>The connected session with the breathing exercise running.\<close>

definition breathing_session :: app where
  "breathing_session = fst (toggle_breathing connected)"

definition reply_body :: "pystr \<Rightarrow> body" where
  "reply_body t =
     Json (PDict [(ascii ''choices'',
       PList [PDict [(ascii ''message'', PDict [(ascii ''content'', PStr t)])]])])"

text \<open>Networks that answer every request alike.\<close>

definition net_reply :: "pystr \<Rightarrow> network" where
  "net_reply t = (\<lambda>_. Response 200 (reply_body t))"

definition net_status :: "nat \<Rightarrow> network" where
  "net_status c = (\<lambda>_. Response c (NotJson []))"

definition net_down :: network where
  "net_down = (\<lambda>_. ConnectionFailed (ascii ''connection refused''))"

definition always_running :: "nat \<Rightarrow> bool" where
  "always_running = (\<lambda>_. True)"

text \<open>The session after a reconnect of the connected session has failed on the key \<^verbatim>\<open>sk-bad\<close>.\<close>

definition after_failed_reconnect :: app where
  "after_failed_reconnect =
     fst (on_connect (net_status 401) (connected\<lparr>key_entry := ascii ''sk-bad''\<rparr>))"

subsection \<open>Threads\<close>

text \<open>
  The UI thread runs the handlers of the widgets and every callback given to
  \<^verbatim>\<open>root.after\<close>; \<^verbatim>\<open>threading.Thread(target=w).start()\<close> runs \<open>w\<close> on a thread of its own.
  \<open>spawned\<close> lists the workers among the actions of a handler, \<open>run_callbacks\<close> the callbacks
  among the actions of a worker as the UI thread runs them, in the order posted, and
  \<open>history_writes\<close> the appends to the transcript in a log, each with the thread that made it.
\<close>

definition spawned :: "action list \<Rightarrow> worker list" where
  "spawned acts = concat (map (\<lambda>a. case a of Spawn w \<Rightarrow> [w] | _ \<Rightarrow> []) acts)"

definition run_callbacks :: "action list \<Rightarrow> (thread \<times> action) list" where
  "run_callbacks acts =
     concat (map (\<lambda>a. case a of Post c \<Rightarrow> [(UI_thread, Call c)] | _ \<Rightarrow> []) acts)"

definition history_writes :: "(thread \<times> action) list \<Rightarrow> (thread \<times> message) list" where
  "history_writes entries =
     concat (map (\<lambda>(t, a). case a of HistoryAppend m \<Rightarrow> [(t, m)] | _ \<Rightarrow> []) entries)"

text \<open>
  One turn with no other event in between: \<^verbatim>\<open>_send_message\<close>, the command of the Send
  button, on the UI thread; then the worker it has started, to its end, on a worker
  thread; then the callbacks the worker has posted, on the UI thread. The log pairs every
  action with the thread that performs it.
\<close>

definition send_turn :: "network \<Rightarrow> app \<Rightarrow> app \<times> (thread \<times> action) list" where
  "send_turn net s =
     (let (s1, acts) = send_message s
      in case spawned acts of
           [StreamResponse arg] \<Rightarrow>
             (let (s2, wacts) = stream_response net arg s1
              in (s2, map (Pair UI_thread) acts @ map (Pair Worker_thread) wacts @
                      run_callbacks wacts))
         | _ \<Rightarrow> (s1, map (Pair UI_thread) acts))"

text \<open>
  \<open>k\<close> presses of the breathing button in a row, each running \<^verbatim>\<open>_toggle_breathing\<close> on the
  UI thread.
\<close>

fun presses :: "nat \<Rightarrow> app \<Rightarrow> app \<times> action list" where
  "presses 0 s = (s, [])"
| "presses (Suc k) s =
     (let (s1, a1) = presses k s;
          (s2, a2) = toggle_breathing s1
      in (s2, a1 @ a2))"

text \<open>
  What a breathing worker reads when \<open>sched n\<close> presses have been made, from the session
  \<open>s\<close>, before its \<open>n\<close>-th read of the flag.
\<close>

definition flag_seen :: "app \<Rightarrow> (nat \<Rightarrow> nat) \<Rightarrow> nat \<Rightarrow> bool" where
  "flag_seen s sched n = breathing (fst (presses (sched n) s))"

text \<open>
  Start is pressed; the worker reads the flag three times (before the first cycle, phase
  and tick), posts its first frame and sleeps 2/15 s; Stop and Start are pressed during
  that sleep. The first worker makes its reads 0 to 2 after one press and all later reads
  after three; the second worker, started by the third press, makes all its reads after
  three.
\<close>

definition first_worker_reads :: "nat \<Rightarrow> nat" where
  "first_worker_reads n = (if n < 3 then 1 else 3)"

definition second_worker_reads :: "nat \<Rightarrow> nat" where
  "second_worker_reads n = 3"

section \<open>Properties\<close>

subsection \<open>Evaluation lemmas\<close>

lemma PLACEHOLDER_nonempty: "PLACEHOLDER \<noteq> []"
  by (simp add: PLACEHOLDER_def)

lemma strip_PLACEHOLDER: "strip PLACEHOLDER = PLACEHOLDER"
  by (simp add: strip_def py_isspace_def ascii_def PLACEHOLDER_def ELLIPSIS_def)

lemma strip_placeholder_padded: "strip (ascii ''  '' @ PLACEHOLDER @ [10]) = PLACEHOLDER"
  by (simp add: strip_def py_isspace_def ascii_def PLACEHOLDER_def ELLIPSIS_def)

lemma strip_hello: "strip (ascii ''hello'') = ascii ''hello''"
  by (simp add: strip_def py_isspace_def ascii_def)

lemma hello_not_placeholder: "ascii ''hello'' \<noteq> PLACEHOLDER"
  by (simp add: ascii_def PLACEHOLDER_def)

lemma after_hello_eq:
  "after_hello = connected\<lparr>input_box := [],
     conversation_history := [\<lparr>role = User, content = ascii ''hello''\<rparr>]\<rparr>"
proof -
  have ne: "ascii ''hello'' \<noteq> []" by (simp add: ascii_def)
  show ?thesis
    by (simp add: after_hello_def send_message_def strip_hello hello_not_placeholder ne
        Let_def connected_def initial_def)
qed

subsection \<open>Reading the provider's reply\<close>

lemma reply_text_well_formed:
  "reply_at_path v = Some t \<Longrightarrow> reply_text (Response 200 (Json v)) = Inr (strip t)"
  by (auto simp: reply_text_def reply_at_path_def and_then_def getitem_str_def getitem_0_def
      call_strip_def split: pyval.splits option.splits list.splits)

lemma reply_text_malformed:
  "reply_at_path v = None \<Longrightarrow> \<exists>e. reply_text (Response 200 (Json v)) = Inl e"
  by (auto simp: reply_text_def reply_at_path_def and_then_def getitem_str_def getitem_0_def
      call_strip_def split: pyval.splits option.splits list.splits)

text \<open>The \<^verbatim>\<open>try\<close> block raises exactly on the failed calls.\<close>

lemma call_failed_iff: "call_failed r \<longleftrightarrow> (\<exists>e. reply_text r = Inl e)"
proof (cases r)
  case (ConnectionFailed m)
  then show ?thesis by (simp add: call_failed_def reply_text_def)
next
  case (Response c b)
  show ?thesis
  proof (cases "c = 200")
    case False
    with Response show ?thesis by (simp add: call_failed_def reply_text_def)
  next
    case True
    show ?thesis
    proof (cases b)
      case (NotJson m)
      with Response True show ?thesis by (simp add: call_failed_def reply_text_def)
    next
      case (Json v)
      show ?thesis
      proof (cases "reply_at_path v")
        case None
        with Response True Json reply_text_malformed [OF None] show ?thesis
          by (simp add: call_failed_def)
      next
        case (Some t)
        with Response True Json reply_text_well_formed [OF Some] show ?thesis
          by (simp add: call_failed_def)
      qed
    qed
  qed
qed

lemma net_status_failed: "c \<noteq> 200 \<Longrightarrow> call_failed (net_status c r)"
  by (simp add: net_status_def call_failed_def)

lemma net_down_failed: "call_failed (net_down r)"
  by (simp add: net_down_def call_failed_def)

text \<open>A quick prompt is sent as if it had been typed.\<close>

lemma send_quick_connected:
  "client s \<Longrightarrow> strip prompt \<noteq> [] \<Longrightarrow> strip prompt \<noteq> PLACEHOLDER \<Longrightarrow>
   conversation_history (fst (send_quick prompt s)) =
     conversation_history s @ [\<lparr>role = User, content = strip prompt\<rparr>]"
  by (simp add: send_quick_def send_message_def Let_def)

subsection \<open>Sending a message\<close>

text \<open>
  C10. While connected, an input whose trimmed text is the placeholder string is ignored:
  the state is unchanged (no user message is appended) and nothing is done (no worker is
  started, no warning is shown), although the trimmed text is not empty.
\<close>

theorem send_placeholder_ignored:
  assumes "client s" and "strip (input_box s) = PLACEHOLDER"
  shows "strip (input_box s) \<noteq> [] \<and> send_message s = (s, [])"
  using assms by (simp add: send_message_def PLACEHOLDER_nonempty)

theorem send_placeholder_ignored_witness:
  "client (connected\<lparr>input_box := ascii ''  '' @ PLACEHOLDER @ [10]\<rparr>) \<and>
   strip (input_box (connected\<lparr>input_box := ascii ''  '' @ PLACEHOLDER @ [10]\<rparr>)) = PLACEHOLDER \<and>
   send_message (connected\<lparr>input_box := ascii ''  '' @ PLACEHOLDER @ [10]\<rparr>) =
     (connected\<lparr>input_box := ascii ''  '' @ PLACEHOLDER @ [10]\<rparr>, [])"
  using send_placeholder_ignored [of "connected\<lparr>input_box := ascii ''  '' @ PLACEHOLDER @ [10]\<rparr>"]
  by (simp add: connected_def strip_placeholder_padded)

text \<open>
  While \<^verbatim>\<open>client\<close> is unset, \<^verbatim>\<open>_send_message\<close> leaves the whole state as it is, whatever
  the input box holds; all it does is show the "Not Connected" warning: it appends
  nothing, starts no worker and makes no request.
\<close>

lemma send_without_client:
  assumes "\<not> client s"
  shows "fst (send_message s) = s \<and>
         snd (send_message s) =
           [Call (Showwarning (ascii ''Not Connected'')
              (ascii ''Please enter your '' @ provider_name (provider_var s) @
               ascii '' API key and click Connect.''))] \<and>
         filter mutates_history (snd (send_message s)) = [] \<and>
         filter is_spawn (snd (send_message s)) = [] \<and>
         filter is_request (snd (send_message s)) = []"
  using assms by (simp add: send_message_def mutates_history_def is_spawn_def is_request_def)

text \<open>
  C5, as stated, fails at the placeholder: in the connected session whose input box holds
  the placeholder text, the trimmed input is not empty, yet no user message is appended
  and nothing is done.
\<close>

theorem send_placeholder_counterexample:
  "client connected \<and> strip (input_box connected) \<noteq> [] \<and>
   conversation_history (fst (send_message connected)) = conversation_history connected \<and>
   snd (send_message connected) = []"
  by (simp add: connected_def initial_def send_message_def strip_PLACEHOLDER PLACEHOLDER_nonempty)

text \<open>
  C5, amended. While connected, for every input whose trimmed text is neither empty nor
  the placeholder string, \<^verbatim>\<open>_send_message\<close> appends exactly one user message with the
  trimmed text to the transcript, and it does so before it starts the worker; for every
  input that trims to the empty string it does nothing and changes nothing.
\<close>

theorem send_appends_user_message:
  assumes "client s"
  shows "(strip (input_box s) \<noteq> [] \<and> strip (input_box s) \<noteq> PLACEHOLDER \<longrightarrow>
            conversation_history (fst (send_message s)) =
              conversation_history s @ [\<lparr>role = User, content = strip (input_box s)\<rparr>] \<and>
            snd (send_message s) =
              [Call (AppendMessage (ascii ''user'') (ascii ''You'') (strip (input_box s))),
               HistoryAppend \<lparr>role = User, content = strip (input_box s)\<rparr>,
               Spawn (StreamResponse History)]) \<and>
         (strip (input_box s) = [] \<longrightarrow> send_message s = (s, []))"
  using assms by (simp add: send_message_def Let_def)

theorem send_appends_user_message_witness:
  "client (connected\<lparr>input_box := ascii ''hello''\<rparr>) \<and>
   conversation_history (fst (send_message (connected\<lparr>input_box := ascii ''hello''\<rparr>))) =
     conversation_history (connected\<lparr>input_box := ascii ''hello''\<rparr>) @
       [\<lparr>role = User, content = ascii ''hello''\<rparr>] \<and>
   client (connected\<lparr>input_box := [32, 10]\<rparr>) \<and>
   send_message (connected\<lparr>input_box := [32, 10]\<rparr>) = (connected\<lparr>input_box := [32, 10]\<rparr>, [])"
proof -
  have c1: "client (connected\<lparr>input_box := ascii ''hello''\<rparr>)"
    and c2: "client (connected\<lparr>input_box := [32, 10]\<rparr>)"
    by (simp_all add: connected_def)
  have e: "strip (input_box (connected\<lparr>input_box := [32, 10]\<rparr>)) = []"
    by (simp add: strip_def py_isspace_def)
  have h: "strip (input_box (connected\<lparr>input_box := ascii ''hello''\<rparr>)) = ascii ''hello''"
    by (simp add: strip_hello)
  from send_appends_user_message [OF c1] send_appends_user_message [OF c2] c1 c2 e h
    hello_not_placeholder
  show ?thesis by (simp add: ascii_def)
qed

subsection \<open>The provider call\<close>

text \<open>
  C4. When the provider call fails (network error, status other than 200, or a body that
  is not JSON or not well formed), \<^verbatim>\<open>_stream_response\<close> leaves the whole state as the
  worker found it: the transcript still ends with the user's message, no assistant turn
  is recorded and \<^verbatim>\<open>client\<close> stays set. It posts the removal of the thinking indicator
  and exactly one rendered message, the error text.
\<close>

theorem failed_call_records_no_reply:
  assumes "call_failed (net (chat_request s (messages_of arg s)))"
  shows "fst (stream_response net arg s) = s \<and>
         filter mutates_history (snd (stream_response net arg s)) = [] \<and>
         length (filter renders_message (snd (stream_response net arg s))) = 1 \<and>
         (\<exists>e. snd (stream_response net arg s) =
            [Post ShowThinking,
             Request (chat_request s (messages_of arg s)),
             Post HideThinking,
             Post (AppendMessage (ascii ''bot'') (ascii ''Solace'')
                     (ascii ''Something went wrong: '' @ exc_str e))])"
proof -
  from assms obtain e where
    "reply_text (net (chat_request s (messages_of arg s))) = Inl e"
    unfolding call_failed_iff by blast
  then show ?thesis
    by (auto simp: stream_response_def Let_def mutates_history_def renders_message_def)
qed

theorem failed_call_records_no_reply_witness:
  "call_failed (net_status 500 (chat_request after_hello (conversation_history after_hello))) \<and>
   fst (stream_response (net_status 500) History after_hello) = after_hello \<and>
   conversation_history (fst (stream_response (net_status 500) History after_hello)) =
     [\<lparr>role = User, content = ascii ''hello''\<rparr>] \<and>
   client (fst (stream_response (net_status 500) History after_hello)) \<and>
   length (filter renders_message (snd (stream_response (net_status 500) History after_hello))) = 1"
proof -
  have f: "call_failed (net_status 500 (chat_request after_hello (messages_of History after_hello)))"
    by (simp add: net_status_failed)
  have h: "conversation_history after_hello = [\<lparr>role = User, content = ascii ''hello''\<rparr>]"
    and c: "client after_hello"
    by (simp_all add: after_hello_eq connected_def initial_def)
  from failed_call_records_no_reply [of "net_status 500" after_hello History, OF f] f h c
  show ?thesis by (simp add: messages_of_def)
qed

lemma reply_text_net_reply: "reply_text (net_reply t r) = Inr (strip t)"
  by (simp add: net_reply_def reply_body_def reply_text_well_formed reply_at_path_def)

lemma strip_Hi: "strip (ascii '' Hi '') = ascii ''Hi''"
  by (simp add: strip_def py_isspace_def ascii_def)

lemma str_nat_200: "str_nat 200 = ascii ''200''"
  by (simp add: str_nat.simps ascii_def)

lemma net_reply_succeeds: "\<not> call_failed (net_reply t r)"
  by (simp add: call_failed_iff reply_text_net_reply)

text \<open>
  C1, as stated, fails: in the turn that answers \<^verbatim>\<open>hello\<close>, the one mutation of the
  transcript among the worker's actions is the append of the assistant message, and it
  takes place on the worker thread, not in a posted callback.
\<close>

theorem assistant_append_on_worker_counterexample:
  "filter mutates_history (snd (stream_response (net_reply (ascii '' Hi '')) History after_hello)) =
     [HistoryAppend \<lparr>role = Assistant, content = ascii ''Hi''\<rparr>] \<and>
   map (executed_on Worker_thread)
     (filter mutates_history (snd (stream_response (net_reply (ascii '' Hi '')) History after_hello))) =
     [Worker_thread]"
  by (simp add: stream_response_def reply_text_net_reply strip_Hi Let_def mutates_history_def
      executed_on_def)

text \<open>
  C1, amended. In a turn whose provider call succeeds the transcript is appended to twice,
  and neither append is made by a posted callback. The user message is appended by
  \<^verbatim>\<open>_send_message\<close> itself, on the UI thread, before the worker is started. The
  assistant message is appended by \<^verbatim>\<open>_stream_response\<close> itself, on the worker thread
  that made the request, after the posts that render the reply and before the post that
  ends the message. What the worker posts, and the UI thread then runs, are the four
  updates of the display.
\<close>

theorem turn_history_writes:
  assumes "client s" and "strip (input_box s) \<noteq> []" and "strip (input_box s) \<noteq> PLACEHOLDER"
    and "\<not> call_failed (net (chat_request (fst (send_message s))
            (conversation_history (fst (send_message s)))))"
  shows "\<exists>t. snd (send_turn net s) =
            [(UI_thread, Call (AppendMessage (ascii ''user'') (ascii ''You'') (strip (input_box s)))),
             (UI_thread, HistoryAppend \<lparr>role = User, content = strip (input_box s)\<rparr>),
             (UI_thread, Spawn (StreamResponse History)),
             (Worker_thread, Post ShowThinking),
             (Worker_thread, Request (chat_request (fst (send_message s))
                (conversation_history (fst (send_message s))))),
             (Worker_thread, Post (StartBotMessage (ascii ''Solace''))),
             (Worker_thread, Post (AppendChunk t)),
             (Worker_thread, HistoryAppend \<lparr>role = Assistant, content = t\<rparr>),
             (Worker_thread, Post FinishBotMessage),
             (UI_thread, Call ShowThinking),
             (UI_thread, Call (StartBotMessage (ascii ''Solace''))),
             (UI_thread, Call (AppendChunk t)),
             (UI_thread, Call FinishBotMessage)] \<and>
          history_writes (snd (send_turn net s)) =
            [(UI_thread, \<lparr>role = User, content = strip (input_box s)\<rparr>),
             (Worker_thread, \<lparr>role = Assistant, content = t\<rparr>)] \<and>
          conversation_history (fst (send_turn net s)) =
            conversation_history s @
              [\<lparr>role = User, content = strip (input_box s)\<rparr>,
               \<lparr>role = Assistant, content = t\<rparr>]"
proof -
  let ?s1 = "s\<lparr>input_box := [],
                conversation_history :=
                  conversation_history s @ [\<lparr>role = User, content = strip (input_box s)\<rparr>]\<rparr>"
  have sm: "send_message s =
      (?s1, [Call (AppendMessage (ascii ''user'') (ascii ''You'') (strip (input_box s))),
             HistoryAppend \<lparr>role = User, content = strip (input_box s)\<rparr>,
             Spawn (StreamResponse History)])"
    using assms(1-3) by (simp add: send_message_def Let_def)
  from assms(4) obtain t where
    t: "reply_text (net (chat_request ?s1 (conversation_history ?s1))) = Inr t"
    unfolding call_failed_iff sm fst_conv
    by (cases "reply_text (net (chat_request ?s1 (conversation_history ?s1)))") auto
  have sr: "stream_response net History ?s1 =
      (?s1\<lparr>conversation_history :=
              conversation_history ?s1 @ [\<lparr>role = Assistant, content = t\<rparr>]\<rparr>,
       [Post ShowThinking, Request (chat_request ?s1 (conversation_history ?s1)),
        Post (StartBotMessage (ascii ''Solace'')), Post (AppendChunk t),
        HistoryAppend \<lparr>role = Assistant, content = t\<rparr>, Post FinishBotMessage])"
    using t by (simp add: stream_response_def messages_of_def Let_def)
  have "snd (send_turn net s) =
            [(UI_thread, Call (AppendMessage (ascii ''user'') (ascii ''You'') (strip (input_box s)))),
             (UI_thread, HistoryAppend \<lparr>role = User, content = strip (input_box s)\<rparr>),
             (UI_thread, Spawn (StreamResponse History)),
             (Worker_thread, Post ShowThinking),
             (Worker_thread, Request (chat_request (fst (send_message s))
                (conversation_history (fst (send_message s))))),
             (Worker_thread, Post (StartBotMessage (ascii ''Solace''))),
             (Worker_thread, Post (AppendChunk t)),
             (Worker_thread, HistoryAppend \<lparr>role = Assistant, content = t\<rparr>),
             (Worker_thread, Post FinishBotMessage),
             (UI_thread, Call ShowThinking),
             (UI_thread, Call (StartBotMessage (ascii ''Solace''))),
             (UI_thread, Call (AppendChunk t)),
             (UI_thread, Call FinishBotMessage)] \<and>
          history_writes (snd (send_turn net s)) =
            [(UI_thread, \<lparr>role = User, content = strip (input_box s)\<rparr>),
             (Worker_thread, \<lparr>role = Assistant, content = t\<rparr>)] \<and>
          conversation_history (fst (send_turn net s)) =
            conversation_history s @
              [\<lparr>role = User, content = strip (input_box s)\<rparr>,
               \<lparr>role = Assistant, content = t\<rparr>]"
    unfolding send_turn_def sm
    by (simp add: spawned_def sr run_callbacks_def history_writes_def)
  then show ?thesis ..
qed

theorem turn_history_writes_witness:
  "client (connected\<lparr>input_box := ascii ''hello''\<rparr>) \<and>
   strip (input_box (connected\<lparr>input_box := ascii ''hello''\<rparr>)) = ascii ''hello'' \<and>
   \<not> call_failed (net_reply (ascii '' Hi '')
      (chat_request (fst (send_message (connected\<lparr>input_box := ascii ''hello''\<rparr>)))
         (conversation_history (fst (send_message (connected\<lparr>input_box := ascii ''hello''\<rparr>)))))) \<and>
   (\<exists>t. history_writes
      (snd (send_turn (net_reply (ascii '' Hi '')) (connected\<lparr>input_box := ascii ''hello''\<rparr>))) =
     [(UI_thread, \<lparr>role = User, content = ascii ''hello''\<rparr>),
      (Worker_thread, \<lparr>role = Assistant, content = t\<rparr>)])"
proof -
  let ?s = "connected\<lparr>input_box := ascii ''hello''\<rparr>"
  have c: "client ?s" by (simp add: connected_def)
  have h: "strip (input_box ?s) = ascii ''hello''" by (simp add: strip_hello)
  have hello: "ascii ''hello'' \<noteq> []" by (simp add: ascii_def)
  have ne: "strip (input_box ?s) \<noteq> []" unfolding h by (rule hello)
  have np: "strip (input_box ?s) \<noteq> PLACEHOLDER" unfolding h by (rule hello_not_placeholder)
  have ok: "\<not> call_failed (net_reply (ascii '' Hi '') (chat_request (fst (send_message ?s))
            (conversation_history (fst (send_message ?s)))))"
    by (rule net_reply_succeeds)
  from turn_history_writes [of ?s "net_reply (ascii '' Hi '')", OF c ne np ok]
  have "\<exists>t. history_writes (snd (send_turn (net_reply (ascii '' Hi '')) ?s)) =
          [(UI_thread, \<lparr>role = User, content = ascii ''hello''\<rparr>),
           (Worker_thread, \<lparr>role = Assistant, content = t\<rparr>)]"
    unfolding h by blast
  with c h ok show ?thesis by blast
qed

text \<open>
  C2. On a successful call the worker posts the thinking indicator, the header and the
  text of the reply, appends the assistant message and posts the end of the message; the
  removal of the thinking indicator, which the failure branch posts, is not among its
  actions. Evaluated at the turn that answers \<^verbatim>\<open>hello\<close> with \<^verbatim>\<open>Hi\<close>.
\<close>

theorem success_never_hides_thinking:
  "snd (stream_response (net_reply (ascii ''Hi'')) History after_hello) =
     [Post ShowThinking,
      Request (chat_request after_hello (conversation_history after_hello)),
      Post (StartBotMessage (ascii ''Solace'')),
      Post (AppendChunk (ascii ''Hi'')),
      HistoryAppend \<lparr>role = Assistant, content = ascii ''Hi''\<rparr>,
      Post FinishBotMessage] \<and>
   Post HideThinking \<notin> set (snd (stream_response (net_reply (ascii ''Hi'')) History after_hello))"
proof -
  have "strip (ascii ''Hi'') = ascii ''Hi''"
    by (simp add: strip_def py_isspace_def ascii_def)
  then show ?thesis
    by (simp add: stream_response_def reply_text_net_reply Let_def messages_of_def)
qed

subsection \<open>Connecting\<close>

lemma openai_session_eq:
  "openai_session = (initial [] [])\<lparr>provider_var := OpenAI, api_provider := OpenAI, key_entry := user_key\<rparr>"
  by (simp add: openai_session_def on_provider_change_def initial_def Let_def)

lemma strip_user_key: "strip user_key = user_key"
  by (simp add: strip_def py_isspace_def ascii_def user_key_def)

lemma user_key_nonempty: "user_key \<noteq> []"
  by (simp add: user_key_def ascii_def)

lemma strip_bad: "strip (ascii ''sk-bad'') = ascii ''sk-bad''"
  by (simp add: strip_def py_isspace_def ascii_def)

lemma after_failed_reconnect_eq:
  "after_failed_reconnect =
     connected\<lparr>key_entry := ascii ''sk-bad'', api_key := ascii ''sk-bad'',
       openrouter_api_key := ascii ''sk-bad'', status_label := BULLET @ ascii ''Error''\<rparr>"
proof -
  have ne: "ascii ''sk-bad'' \<noteq> []" by (simp add: ascii_def)
  show ?thesis
    by (simp add: after_failed_reconnect_def on_connect_def connect_client_def connect_failed_def
        strip_bad ne net_status_def Let_def connected_def initial_def)
qed

text \<open>
  What a failed health check does, for both providers: the status label shows the error,
  and \<^verbatim>\<open>client\<close> keeps the value it had.
\<close>

lemma connect_client_failure:
  assumes "\<forall>r b. net r \<noteq> Response 200 b"
  shows "status_label (fst (connect_client net s)) = BULLET @ ascii ''Error'' \<and>
         client (fst (connect_client net s)) = client s"
proof -
  have a: "status_label (fst (connect_failed s acts e)) = BULLET @ ascii ''Error'' \<and>
      client (fst (connect_failed s acts e)) = client s" for acts e
    by (simp add: connect_failed_def)
  from assms show ?thesis
    by (auto simp: connect_client_def Let_def a split: http_result.splits)
qed

text \<open>
  C3. With OpenAI selected and the key \<open>user_key\<close> typed in, the health check is a GET to
  the model list of OpenRouter with the key written in the source as bearer credential;
  the key of the user is stored but not sent. Evaluated at that session.
\<close>

theorem openai_health_check_request:
  "api_provider openai_session = OpenAI \<and>
   strip (key_entry openai_session) = user_key \<and>
   snd (on_connect (net_status 200) openai_session) =
     [Request \<lparr>http_method = GET, url = ascii ''https://openrouter.ai/api/v1/models'',
        authorization = ascii ''Bearer '' @ HARDCODED_KEY, content_type = None, json = None\<rparr>,
      Print (ascii ''Status:200'')] @ send_greeting \<and>
   api_key (fst (on_connect (net_status 200) openai_session)) = user_key \<and>
   client (fst (on_connect (net_status 200) openai_session)) \<and>
   HARDCODED_KEY \<noteq> user_key"
proof -
  have k: "HARDCODED_KEY \<noteq> user_key"
    by (simp add: HARDCODED_KEY_def user_key_def ascii_def)
  have p: "ascii ''Status:'' @ ascii ''200'' = ascii ''Status:200''"
    by (simp add: ascii_def)
  show ?thesis
    by (simp add: openai_session_eq on_connect_def connect_client_def strip_user_key
        user_key_nonempty net_status_def Let_def MODELS_URL_def str_nat_200 p k initial_def)
qed

text \<open>
  C7. A session that is connected and then fails a health check (status 401 for a new
  key) shows the status Error and keeps \<^verbatim>\<open>client\<close> set, so the next message is accepted
  and a worker is started for it. Evaluated at that session.
\<close>

theorem failed_reconnect_stays_connected:
  "client connected \<and>
   status_label (fst (on_connect (net_status 401) (connected\<lparr>key_entry := ascii ''sk-bad''\<rparr>))) =
     BULLET @ ascii ''Error'' \<and>
   client (fst (on_connect (net_status 401) (connected\<lparr>key_entry := ascii ''sk-bad''\<rparr>))) \<and>
   snd (send_message
     ((fst (on_connect (net_status 401) (connected\<lparr>key_entry := ascii ''sk-bad''\<rparr>)))
        \<lparr>input_box := ascii ''hello''\<rparr>)) =
     [Call (AppendMessage (ascii ''user'') (ascii ''You'') (ascii ''hello'')),
      HistoryAppend \<lparr>role = User, content = ascii ''hello''\<rparr>,
      Spawn (StreamResponse History)]"
proof -
  have ne: "ascii ''sk-bad'' \<noteq> []" "ascii ''hello'' \<noteq> []" by (simp_all add: ascii_def)
  show ?thesis
    by (simp add: on_connect_def connect_client_def connect_failed_def strip_bad ne net_status_def
        Let_def connected_def initial_def send_message_def strip_hello hello_not_placeholder)
qed

text \<open>
  C6. The session left by the failed reconnect shows the status Error, so it is not
  connected; a message sent in it is not refused: no warning is shown, the user message
  is appended to the transcript and a worker is started for the provider call. Evaluated
  at that session.
\<close>

theorem send_accepted_after_failed_reconnect:
  "status_label after_failed_reconnect = BULLET @ ascii ''Error'' \<and>
   status_label after_failed_reconnect \<noteq> BULLET @ ascii ''Connected'' \<and>
   conversation_history
     (fst (send_message (after_failed_reconnect\<lparr>input_box := ascii ''hello''\<rparr>))) =
     conversation_history after_failed_reconnect @ [\<lparr>role = User, content = ascii ''hello''\<rparr>] \<and>
   snd (send_message (after_failed_reconnect\<lparr>input_box := ascii ''hello''\<rparr>)) =
     [Call (AppendMessage (ascii ''user'') (ascii ''You'') (ascii ''hello'')),
      HistoryAppend \<lparr>role = User, content = ascii ''hello''\<rparr>,
      Spawn (StreamResponse History)] \<and>
   spawned (snd (send_message (after_failed_reconnect\<lparr>input_box := ascii ''hello''\<rparr>))) =
     [StreamResponse History]"
proof -
  have ne: "ascii ''hello'' \<noteq> []" by (simp add: ascii_def)
  have d: "ascii ''Error'' \<noteq> ascii ''Connected''" by (simp add: ascii_def)
  show ?thesis
    by (simp add: after_failed_reconnect_eq d send_message_def strip_hello hello_not_placeholder ne
        Let_def connected_def initial_def spawned_def)
qed

subsection \<open>Box breathing\<close>

lemma breathing_session_eq: "breathing_session = connected\<lparr>breathing := True\<rparr>"
  by (simp add: breathing_session_def toggle_breathing_def connected_def initial_def)

text \<open>
  The breathing button toggles: pressed while the flag is set it clears the flag and
  starts nothing, pressed while the flag is clear it sets the flag and starts one worker.
\<close>

lemma toggle_breathing_spawns:
  "spawned (snd (toggle_breathing s)) = (if breathing s then [] else [RunBreathing]) \<and>
   breathing (fst (toggle_breathing s)) = (\<not> breathing s)"
  by (simp add: toggle_breathing_def spawned_def)

lemma ticks_running:
  assumes "\<And>k. flag k"
  shows "ticks flag label duration xs n =
           (concat (map (tick_trace label duration) xs), n + length xs)"
  using assms
  by (induction xs arbitrary: n) (simp_all add: tick_trace_def tick_scale_def steps_def)

lemma phases_Cons_running:
  "flag n \<Longrightarrow> phases flag ((label, duration) # rest) n =
     (let (a1, n1) = ticks flag label duration [0..<steps + 1] (Suc n);
          (a2, n2) = phases flag rest n1
      in (a1 @ a2, n2))"
  by simp

lemma cycles_Cons_running:
  "flag n \<Longrightarrow> cycles flag (cycle # rest) n =
     (let (a1, n1) = phases flag BOX_BREATHING_STEPS (Suc n);
          (a2, n2) = cycles flag rest n1
      in (a1 @ a2, n2))"
  by simp

lemma phases_running:
  assumes "\<And>k. flag k"
  shows "phases flag ps n = (concat (map phase_trace ps), n + length ps * 32)"
proof (induction ps arbitrary: n)
  case Nil
  show ?case by simp
next
  case (Cons p ps)
  obtain label duration where p: "p = (label, duration)" by (cases p)
  have fn: "flag n" by (rule assms)
  have t: "ticks flag label duration [0..<steps + 1] (Suc n) =
      (phase_trace (label, duration), Suc n + 31)"
    by (simp add: ticks_running [OF assms] phase_trace_def steps_def)
  show ?case
    unfolding p phases_Cons_running [of flag n, OF fn] t Let_def prod.case Cons.IH
    by simp
qed

lemma cycles_running:
  assumes "\<And>k. flag k"
  shows "cycles flag cs n =
           (concat (replicate (length cs) (concat (map phase_trace BOX_BREATHING_STEPS))),
            n + length cs * 129)"
proof (induction cs arbitrary: n)
  case Nil
  show ?case by simp
next
  case (Cons c cs)
  have fn: "flag n" by (rule assms)
  have l: "length BOX_BREATHING_STEPS = 4" by (simp add: BOX_BREATHING_STEPS_def)
  have p: "phases flag BOX_BREATHING_STEPS (Suc n) =
      (concat (map phase_trace BOX_BREATHING_STEPS), Suc n + 4 * 32)"
    unfolding phases_running [OF assms] l ..
  show ?case
    unfolding cycles_Cons_running [of flag n, OF fn] p Let_def prod.case Cons.IH
    by simp
qed

lemma frames_of_ticks:
  "length (filter is_breath_frame (concat (map (tick_trace label duration) xs))) = length xs"
  by (induction xs) (simp_all add: tick_trace_def is_breath_frame_def)

lemma frames_of_phase: "length (filter is_breath_frame (phase_trace p)) = 31"
  by (simp add: phase_trace_def frames_of_ticks)

lemma run_breathing_running:
  assumes "\<And>k. flag k"
  shows "run_breathing flag =
           concat (replicate 4
             (phase_trace (ascii ''Inhale'' @ [ELLIPSIS], 4) @
              phase_trace (ascii ''Hold'' @ [ELLIPSIS], 4) @
              phase_trace (ascii ''Exhale'' @ [ELLIPSIS], 6) @
              phase_trace (ascii ''Hold'' @ [ELLIPSIS], 4))) @
           [SetBreathing False,
            Post (BreathBtnConfigure (ascii ''Start Breathing'')),
            Post (DrawBreathCircle (ascii ''Done '' @ [10003]) 1)]"
proof -
  have b: "concat (map phase_trace BOX_BREATHING_STEPS) =
      phase_trace (ascii ''Inhale'' @ [ELLIPSIS], 4) @
      phase_trace (ascii ''Hold'' @ [ELLIPSIS], 4) @
      phase_trace (ascii ''Exhale'' @ [ELLIPSIS], 6) @
      phase_trace (ascii ''Hold'' @ [ELLIPSIS], 4)"
    by (simp add: BOX_BREATHING_STEPS_def)
  have l: "length [0..<4::nat] = 4" by simp
  have c: "cycles flag [0..<4] 0 =
      (concat (replicate 4 (concat (map phase_trace BOX_BREATHING_STEPS))), 0 + 4 * 129)"
    unfolding cycles_running [OF assms] l ..
  have f: "flag (0 + 4 * 129)" by (rule assms)
  show ?thesis
    unfolding run_breathing_def c Let_def prod.case b using f by simp
qed

lemma first_phase_starts:
  "take 2 (phase_trace (ascii ''Inhale'' @ [ELLIPSIS], 4) @ rest) =
     [Post (DrawBreathCircle (ascii ''Inhale (4s)'') 1), Sleep (2 / 15)]"
proof -
  have u: "[0..<31] = 0 # [1..<31]" by (simp add: upt_conv_Cons)
  have n: "str_nat 4 = ascii ''4''" by (simp add: str_nat.simps ascii_def)
  show ?thesis
    by (simp add: phase_trace_def u tick_trace_def tick_label_def replace_char_def n
        ELLIPSIS_def ascii_def)
qed

lemma first_worker_sees_running: "flag_seen connected first_worker_reads = always_running"
  by (rule ext)
    (simp add: flag_seen_def first_worker_reads_def always_running_def numeral_eq_Suc
      toggle_breathing_def connected_def initial_def)

lemma second_worker_sees_running: "flag_seen connected second_worker_reads = always_running"
  by (rule ext)
    (simp add: flag_seen_def second_worker_reads_def always_running_def numeral_eq_Suc
      toggle_breathing_def connected_def initial_def)

text \<open>
  C9. Start, then Stop and Start again while the first worker sleeps after its first
  frame: the three presses start two workers, the second while the flag is clear. Every
  read of the first worker finds the flag set, so it runs on through the whole session,
  of which only the first frame and sleep lie before the second press; the second worker
  runs its whole session too. From the third press on two workers are active. Evaluated
  at these presses on the connected session.
\<close>

theorem second_worker_while_first_runs:
  "spawned (snd (presses 3 connected)) = [RunBreathing, RunBreathing] \<and>
   breathing (fst (presses 1 connected)) \<and>
   \<not> breathing (fst (presses 2 connected)) \<and>
   breathing (fst (presses 3 connected)) \<and>
   take 2 (run_breathing (flag_seen connected first_worker_reads)) =
     [Post (DrawBreathCircle (ascii ''Inhale (4s)'') 1), Sleep (2 / 15)] \<and>
   length (filter is_breath_frame (run_breathing (flag_seen connected first_worker_reads))) = 497 \<and>
   length (filter is_breath_frame (run_breathing (flag_seen connected second_worker_reads))) = 497"
proof -
  have h: "\<And>k. always_running k" by (simp add: always_running_def)
  have four: "replicate 4 x = [x, x, x, x]" for x :: "action list"
    by (simp add: numeral_eq_Suc)
  have p: "spawned (snd (presses 3 connected)) = [RunBreathing, RunBreathing]"
    "breathing (fst (presses 1 connected))"
    "\<not> breathing (fst (presses 2 connected))"
    "breathing (fst (presses 3 connected))"
    by (simp_all add: numeral_eq_Suc toggle_breathing_def connected_def initial_def spawned_def)
  have t: "take 2 (run_breathing always_running) =
      [Post (DrawBreathCircle (ascii ''Inhale (4s)'') 1), Sleep (2 / 15)]"
    unfolding run_breathing_running [OF h] four
    by (simp only: concat.simps append_assoc first_phase_starts)
  have f: "length (filter is_breath_frame (run_breathing always_running)) = 497"
    unfolding run_breathing_running [OF h] four
    by (simp add: frames_of_phase is_breath_frame_def)
  show ?thesis
    unfolding first_worker_sees_running second_worker_sees_running
    using p t f by blast
qed

text \<open>
  C8, as stated, fails: an uninterrupted phase posts 31 frames, not 30, and the whole
  session 4 * 4 * 31 frames and the final one.
\<close>

theorem thirty_updates_counterexample:
  "length (filter is_breath_frame
     (fst (phases always_running [(ascii ''Inhale'' @ [ELLIPSIS], 4)] 0))) = 31 \<and>
   length (filter is_breath_frame (run_breathing always_running)) = 497"
proof (intro conjI)
  have h: "\<And>k. always_running k" by (simp add: always_running_def)
  have four: "replicate 4 x = [x, x, x, x]" for x :: "action list"
    by (simp add: numeral_eq_Suc)
  show "length (filter is_breath_frame (run_breathing always_running)) = 497"
    unfolding run_breathing_running [OF h] four
    by (simp add: frames_of_phase is_breath_frame_def)
  show "length (filter is_breath_frame
     (fst (phases always_running [(ascii ''Inhale'' @ [ELLIPSIS], 4)] 0))) = 31"
    unfolding phases_running [OF h] by (simp add: frames_of_phase)
qed


text \<open>
  C8, amended. When every read of the flag finds it set, the session is 4 cycles of the
  phases inhale (4), hold (4), exhale (6), hold (4) in this order, then the flag is
  cleared and the reset of the button and the "Done" frame are posted. Every phase posts
  exactly 31 frames, for the ticks 0 to 30; the scale of tick \<open>i\<close> is the linear
  interpolation \<open>1 + (end_scale - 1) * (i / 30)\<close> between 1 and the end scale of the phase,
  and every frame is followed by a sleep of the phase's duration divided by 30.
\<close>

theorem uninterrupted_breathing:
  assumes "\<forall>n. flag n"
  shows "run_breathing flag =
           concat (replicate 4
             (phase_trace (ascii ''Inhale'' @ [ELLIPSIS], 4) @
              phase_trace (ascii ''Hold'' @ [ELLIPSIS], 4) @
              phase_trace (ascii ''Exhale'' @ [ELLIPSIS], 6) @
              phase_trace (ascii ''Hold'' @ [ELLIPSIS], 4))) @
           [SetBreathing False,
            Post (BreathBtnConfigure (ascii ''Start Breathing'')),
            Post (DrawBreathCircle (ascii ''Done '' @ [10003]) 1)] \<and>
         length (filter is_breath_frame (phase_trace p)) = 31 \<and>
         phase_trace p = concat (map (\<lambda>i.
             [Post (DrawBreathCircle (tick_label (fst p) (snd p) i)
                      (1 + (end_scale (fst p) - 1) * (of_nat i / 30))),
              Sleep (of_nat (snd p) / 30)]) [0..<31])"
proof (intro conjI)
  from assms have "\<And>k. flag k" by blast
  then show "run_breathing flag =
           concat (replicate 4
             (phase_trace (ascii ''Inhale'' @ [ELLIPSIS], 4) @
              phase_trace (ascii ''Hold'' @ [ELLIPSIS], 4) @
              phase_trace (ascii ''Exhale'' @ [ELLIPSIS], 6) @
              phase_trace (ascii ''Hold'' @ [ELLIPSIS], 4))) @
           [SetBreathing False,
            Post (BreathBtnConfigure (ascii ''Start Breathing'')),
            Post (DrawBreathCircle (ascii ''Done '' @ [10003]) 1)]"
    by (rule run_breathing_running)
  show "length (filter is_breath_frame (phase_trace p)) = 31"
    by (rule frames_of_phase)
  show "phase_trace p = concat (map (\<lambda>i.
             [Post (DrawBreathCircle (tick_label (fst p) (snd p) i)
                      (1 + (end_scale (fst p) - 1) * (of_nat i / 30))),
              Sleep (of_nat (snd p) / 30)]) [0..<31])"
    unfolding phase_trace_def tick_trace_def [abs_def] ..
qed

theorem uninterrupted_breathing_witness:
  "(\<forall>n. always_running n) \<and>
   run_breathing always_running =
           concat (replicate 4
             (phase_trace (ascii ''Inhale'' @ [ELLIPSIS], 4) @
              phase_trace (ascii ''Hold'' @ [ELLIPSIS], 4) @
              phase_trace (ascii ''Exhale'' @ [ELLIPSIS], 6) @
              phase_trace (ascii ''Hold'' @ [ELLIPSIS], 4))) @
           [SetBreathing False,
            Post (BreathBtnConfigure (ascii ''Start Breathing'')),
            Post (DrawBreathCircle (ascii ''Done '' @ [10003]) 1)]"
proof -
  have h: "\<forall>n. always_running n" by (simp add: always_running_def)
  from uninterrupted_breathing [OF h] h show ?thesis by blast
qed


end
